theory Spec2Isabelle
  imports Complex_Main "HOL-Library.Word"
begin

unbundle bit_operations_syntax

section \<open>Win32 scalar types and SDK constants\<close>

text \<open>
  The host window of \<^verbatim>\<open>src/cascadia/WindowsTerminal/IslandWindow.cpp\<close> talks to the
  Win32 API. \<^verbatim>\<open>LONG\<close>, \<^verbatim>\<open>int\<close> and \<^verbatim>\<open>UINT\<close> are 32-bit words (arithmetic wraps),
  \<^verbatim>\<open>WPARAM\<close>, \<^verbatim>\<open>LPARAM\<close>, \<^verbatim>\<open>LRESULT\<close> and every handle or pointer are 64-bit words, and
  \<^verbatim>\<open>nullptr\<close> is the word 0. The numeric constants are those of the Windows SDK headers.
\<close>

type_synonym LONG = "32 word"
type_synonym UINT = "32 word"
type_synonym HRESULT = "32 word"
type_synonym WPARAM = "64 word"
type_synonym LPARAM = "64 word"
type_synonym LRESULT = "64 word"
type_synonym HWND = "64 word"
type_synonym pointer = "64 word"

definition nullptr :: pointer where "nullptr = 0"

definition WM_CREATE :: UINT where "WM_CREATE = 0x0001"
definition WM_SETFOCUS :: UINT where "WM_SETFOCUS = 0x0007"
definition WM_CLOSE :: UINT where "WM_CLOSE = 0x0010"
definition WM_NCLBUTTONDOWN :: UINT where "WM_NCLBUTTONDOWN = 0x00A1"
definition WM_NCLBUTTONUP :: UINT where "WM_NCLBUTTONUP = 0x00A2"
definition WM_NCRBUTTONDOWN :: UINT where "WM_NCRBUTTONDOWN = 0x00A4"
definition WM_NCRBUTTONUP :: UINT where "WM_NCRBUTTONUP = 0x00A5"
definition WM_NCMBUTTONDOWN :: UINT where "WM_NCMBUTTONDOWN = 0x00A7"
definition WM_NCMBUTTONUP :: UINT where "WM_NCMBUTTONUP = 0x00A8"
definition WM_NCXBUTTONDOWN :: UINT where "WM_NCXBUTTONDOWN = 0x00AB"
definition WM_NCXBUTTONUP :: UINT where "WM_NCXBUTTONUP = 0x00AC"
definition WM_MENUCHAR :: UINT where "WM_MENUCHAR = 0x0120"

definition MNC_CLOSE :: LONG where "MNC_CLOSE = 1"
definition SW_MAXIMIZE :: LONG where "SW_MAXIMIZE = 3"
definition SW_SHOW :: LONG where "SW_SHOW = 5"
definition GWL_STYLE :: LONG where "GWL_STYLE = - 16"
definition GWL_EXSTYLE :: LONG where "GWL_EXSTYLE = - 20"
definition WS_OVERLAPPEDWINDOW :: LONG where "WS_OVERLAPPEDWINDOW = 0x00CF0000"
definition WS_POPUP :: LONG where "WS_POPUP = 0x80000000"
definition WS_EX_WINDOWEDGE :: LONG where "WS_EX_WINDOWEDGE = 0x00000100"
definition SWP_NOSIZE :: UINT where "SWP_NOSIZE = 0x0001"
definition SWP_NOMOVE :: UINT where "SWP_NOMOVE = 0x0002"
definition SWP_FRAMECHANGED :: UINT where "SWP_FRAMECHANGED = 0x0020"
definition SWP_SHOWWINDOW :: UINT where "SWP_SHOWWINDOW = 0x0040"
definition HWND_TOP :: HWND where "HWND_TOP = 0"

text \<open>
  \<^verbatim>\<open>MAKELONG(a, b)\<close> keeps the low 16 bits of each argument and puts \<open>b\<close> in the high
  word; \<^verbatim>\<open>MAKELRESULT(l, h)\<close> is \<^verbatim>\<open>(LRESULT)(DWORD)MAKELONG(l, h)\<close>, a zero extension.
  \<^verbatim>\<open>LOWORD\<close> and \<^verbatim>\<open>HIWORD\<close> read the two halves back.
\<close>

definition MAKELONG :: "LONG \<Rightarrow> LONG \<Rightarrow> LONG" where
  "MAKELONG a b = (a AND 0xffff) OR push_bit 16 (b AND 0xffff)"

definition MAKELRESULT :: "LONG \<Rightarrow> LONG \<Rightarrow> LRESULT" where
  "MAKELRESULT l h = ucast (MAKELONG l h)"

definition LOWORD :: "LRESULT \<Rightarrow> 16 word" where
  "LOWORD l = ucast (l AND 0xffff)"

definition HIWORD :: "LRESULT \<Rightarrow> 16 word" where
  "HIWORD l = ucast (drop_bit 16 l AND 0xffff)"

text \<open>The flag helpers of the WIL library used on the style words.\<close>

definition WI_SetFlag :: "LONG \<Rightarrow> LONG \<Rightarrow> LONG" where
  "WI_SetFlag var flag = var OR flag"

definition WI_SetAllFlags :: "LONG \<Rightarrow> LONG \<Rightarrow> LONG" where
  "WI_SetAllFlags var flags = var OR flags"

definition WI_ClearFlag :: "LONG \<Rightarrow> LONG \<Rightarrow> LONG" where
  "WI_ClearFlag var flag = var AND NOT flag"

definition WI_ClearAllFlags :: "LONG \<Rightarrow> LONG \<Rightarrow> LONG" where
  "WI_ClearAllFlags var flags = var AND NOT flags"

section \<open>Rectangles\<close>

record RECT =
  left :: LONG
  top' :: LONG
  right :: LONG
  bottom :: LONG

definition RECT_WIDTH :: "RECT \<Rightarrow> LONG" where
  "RECT_WIDTH pRect = right pRect - left pRect"

definition RECT_HEIGHT :: "RECT \<Rightarrow> LONG" where
  "RECT_HEIGHT pRect = bottom pRect - top' pRect"

text \<open>
  The fields \<^verbatim>\<open>x\<close>, \<^verbatim>\<open>y\<close>, \<^verbatim>\<open>cx\<close> and \<^verbatim>\<open>cy\<close> of \<^verbatim>\<open>CREATESTRUCTW\<close>, the ones
  the creation handler reads (prefixed, so that the short names stay free for variables).
\<close>

record CREATESTRUCTW =
  cs_x :: LONG
  cs_y :: LONG
  cs_cx :: LONG
  cs_cy :: LONG

section \<open>The window system as the host window sees it\<close>

text \<open>
  What Win32 keeps for a window handle: its screen rectangle, its style and extended style
  words (\<^verbatim>\<open>GWL_STYLE\<close>, \<^verbatim>\<open>GWL_EXSTYLE\<close>), the rectangle of the monitor nearest to it
  (\<^verbatim>\<open>MONITORINFO::rcMonitor\<close>), and whether \<^verbatim>\<open>GetMonitorInfo\<close> succeeds for that monitor.
\<close>

record WINDOW =
  rcWindow :: RECT
  dwStyle :: LONG
  dwExStyle :: LONG
  rcMonitor :: RECT
  monitorInfoOk :: bool

text \<open>
  Modelled from the spec: the launch mode enumeration \<^verbatim>\<open>winrt::TerminalApp::LaunchMode\<close> is
  declared outside this file; the spec gives its two values, Default and Maximized.
\<close>

datatype LaunchMode = DefaultMode | MaximizedMode

text \<open>
  Modelled from the spec: the two events are declared with the \<^verbatim>\<open>DEFINE_EVENT\<close> macro, whose
  definition is outside this file. The spec describes them as zero-argument notifications
  with multiple subscribers and synchronous delivery; a subscriber is identified by a token.
\<close>

datatype event = DragRegionClicked | WindowCloseButtonClicked

type_synonym token = nat

text \<open>
  Every call that leaves the host window is recorded, in order: the Win32 calls with their
  arguments, the invocation of the creation callback, the delivery of an event to one
  subscriber, the factory call of the accessibility provider and the error log.
\<close>

datatype call =
    Call_SetFocus HWND
  | Call_SetWindowPos HWND HWND LONG LONG LONG LONG UINT
  | Call_SetWindowLongW HWND LONG LONG
  | Call_ShowWindow HWND LONG
  | Call_UpdateWindow HWND
  | Call_PostQuitMessage LONG
  | Call_CreateCallback HWND RECT
  | Call_Handler event token
  | Call_WindowUiaProvider_Create
  | Call_LOG_HR HRESULT

text \<open>
  \<open>memory\<close> holds the creation structures that an \<^verbatim>\<open>LPARAM\<close> can point to; the size
  values of \<open>logicalSize\<close> are single-precision numbers in the source and are only
  passed on.
\<close>

record Size =
  Width :: real
  Height :: real

record Win32 =
  windows :: "HWND \<Rightarrow> WINDOW option"
  memory :: "LPARAM \<Rightarrow> CREATESTRUCTW option"
  logicalSize :: Size
  calls :: "call list"

definition record_call :: "call \<Rightarrow> Win32 \<Rightarrow> Win32" where
  "record_call c os = os\<lparr>calls := calls os @ [c]\<rparr>"

definition SetFocus :: "HWND \<Rightarrow> Win32 \<Rightarrow> Win32" where
  "SetFocus hWnd os = record_call (Call_SetFocus hWnd) os"

definition ShowWindow :: "HWND \<Rightarrow> LONG \<Rightarrow> Win32 \<Rightarrow> Win32" where
  "ShowWindow hWnd nCmdShow os = record_call (Call_ShowWindow hWnd nCmdShow) os"

definition UpdateWindow :: "HWND \<Rightarrow> Win32 \<Rightarrow> Win32" where
  "UpdateWindow hWnd os = record_call (Call_UpdateWindow hWnd) os"

definition PostQuitMessage :: "LONG \<Rightarrow> Win32 \<Rightarrow> Win32" where
  "PostQuitMessage nExitCode os = record_call (Call_PostQuitMessage nExitCode) os"

text \<open>\<^verbatim>\<open>GetWindowLongW\<close> returns 0 when it fails (unknown handle or index).\<close>

definition GetWindowLongW :: "HWND \<Rightarrow> LONG \<Rightarrow> Win32 \<Rightarrow> LONG" where
  "GetWindowLongW hWnd nIndex os =
     (case windows os hWnd of
        None \<Rightarrow> 0
      | Some w \<Rightarrow>
          if nIndex = GWL_STYLE then dwStyle w
          else if nIndex = GWL_EXSTYLE then dwExStyle w
          else 0)"

definition SetWindowLongW :: "HWND \<Rightarrow> LONG \<Rightarrow> LONG \<Rightarrow> Win32 \<Rightarrow> Win32" where
  "SetWindowLongW hWnd nIndex dwNewLong os =
     (let os1 = record_call (Call_SetWindowLongW hWnd nIndex dwNewLong) os
      in case windows os1 hWnd of
           None \<Rightarrow> os1
         | Some w \<Rightarrow>
             if nIndex = GWL_STYLE
               then os1\<lparr>windows := (windows os1)(hWnd \<mapsto> w\<lparr>dwStyle := dwNewLong\<rparr>)\<rparr>
             else if nIndex = GWL_EXSTYLE
               then os1\<lparr>windows := (windows os1)(hWnd \<mapsto> w\<lparr>dwExStyle := dwNewLong\<rparr>)\<rparr>
             else os1)"

text \<open>
  \<^verbatim>\<open>SetWindowPos\<close> moves the window to \<open>(X, Y)\<close> unless \<^verbatim>\<open>SWP_NOMOVE\<close> is set and gives
  it the size \<open>cx\<close> by \<open>cy\<close> unless \<^verbatim>\<open>SWP_NOSIZE\<close> is set.
\<close>

definition SetWindowPos ::
  "HWND \<Rightarrow> HWND \<Rightarrow> LONG \<Rightarrow> LONG \<Rightarrow> LONG \<Rightarrow> LONG \<Rightarrow> UINT \<Rightarrow> Win32 \<Rightarrow> Win32" where
  "SetWindowPos hWnd hWndInsertAfter X Y cx cy uFlags os =
     (let os1 = record_call (Call_SetWindowPos hWnd hWndInsertAfter X Y cx cy uFlags) os
      in case windows os1 hWnd of
           None \<Rightarrow> os1
         | Some w \<Rightarrow>
             let rc = rcWindow w;
                 l = (if uFlags AND SWP_NOMOVE = 0 then X else left rc);
                 t = (if uFlags AND SWP_NOMOVE = 0 then Y else top' rc);
                 wd = (if uFlags AND SWP_NOSIZE = 0 then cx else RECT_WIDTH rc);
                 ht = (if uFlags AND SWP_NOSIZE = 0 then cy else RECT_HEIGHT rc)
             in os1\<lparr>windows := (windows os1)(hWnd \<mapsto>
                  w\<lparr>rcWindow := \<lparr>left = l, top' = t, right = l + wd, bottom = t + ht\<rparr>\<rparr>)\<rparr>)"

text \<open>
  \<^verbatim>\<open>GetMonitorInfo(MonitorFromWindow(hWnd, MONITOR_DEFAULTTONEAREST), &info)\<close>: the
  monitor rectangle when the query succeeds, \<open>None\<close> when it returns \<^verbatim>\<open>FALSE\<close>.
\<close>

definition GetMonitorInfo :: "HWND \<Rightarrow> Win32 \<Rightarrow> RECT option" where
  "GetMonitorInfo hWnd os =
     (case windows os hWnd of
        None \<Rightarrow> None
      | Some w \<Rightarrow> if monitorInfoOk w then Some (rcMonitor w) else None)"

section \<open>The host window object\<close>

record Grid =
  GridWidth :: real
  GridHeight :: real

text \<open>
  The fields of \<^verbatim>\<open>IslandWindow\<close> that the modelled methods touch, under their source
  names without the leading underscore. A null \<^verbatim>\<open>_rootGrid\<close> and an empty
  \<^verbatim>\<open>_pfnCreateCallback\<close> are \<open>None\<close>. The creation callback receives the launch mode by
  reference and may overwrite it: it maps the incoming mode to the outgoing one.
\<close>

record IslandWindow =
  window :: HWND
  interopWindowHandle :: HWND
  rootGrid :: "Grid option"
  pfnCreateCallback :: "(HWND \<Rightarrow> RECT \<Rightarrow> LaunchMode \<Rightarrow> LaunchMode) option"
  pUiaProvider :: pointer
  fullscreen :: bool
  rcNonFullscreenWindowSize :: RECT
  rcFullscreenWindowSize :: RECT
  DragRegionClickedHandlers :: "token list"
  windowCloseButtonClickedHandler :: "token list"

text \<open>
  Modelled from the spec: the base class \<^verbatim>\<open>BaseWindow\<close> is outside this file. The spec
  speaks of the native window identity (\<^verbatim>\<open>GetWindowHandle()\<close>), of the current window
  rectangle (\<^verbatim>\<open>GetWindowRect()\<close>) and of the current logical, DPI-scaled size
  (\<^verbatim>\<open>GetLogicalSize()\<close>). A handle that the window system does not know has no rectangle;
  the model then yields the zero rectangle.
\<close>

definition GetWindowHandle :: "IslandWindow \<Rightarrow> HWND" where
  "GetWindowHandle iw = window iw"

definition GetWindowRect :: "IslandWindow \<Rightarrow> Win32 \<Rightarrow> RECT" where
  "GetWindowRect iw os =
     (case windows os (window iw) of
        None \<Rightarrow> \<lparr>left = 0, top' = 0, right = 0, bottom = 0\<rparr>
      | Some w \<Rightarrow> rcWindow w)"

definition GetLogicalSize :: "IslandWindow \<Rightarrow> Win32 \<Rightarrow> Size" where
  "GetLogicalSize iw os = logicalSize os"

text \<open>Raising an event calls every subscriber, in subscription order.\<close>

definition raise_event :: "event \<Rightarrow> token list \<Rightarrow> Win32 \<Rightarrow> Win32" where
  "raise_event ev handlers os = os\<lparr>calls := calls os @ map (Call_Handler ev) handlers\<rparr>"

section \<open>The methods of the host window\<close>

text \<open>
  A method that can stop the program returns a sum: \<open>Inl\<close> carries the failure. Reading
  through an \<^verbatim>\<open>LPARAM\<close> that points to no creation structure is an access violation; a
  C++ exception is identified by the \<^verbatim>\<open>HRESULT\<close> that
  \<^verbatim>\<open>wil::ResultFromCaughtException\<close> reports for it.
\<close>

datatype fault = AccessViolation

datatype exception = Exception HRESULT

definition ResultFromCaughtException :: "exception \<Rightarrow> HRESULT" where
  "ResultFromCaughtException e = (case e of Exception hr \<Rightarrow> hr)"

definition LOG_HR :: "HRESULT \<Rightarrow> Win32 \<Rightarrow> Win32" where
  "LOG_HR hr os = record_call (Call_LOG_HR hr) os"

text \<open>
  The message handler either returns a result itself or ends in
  \<^verbatim>\<open>return base_type::MessageHandler(message, wparam, lparam)\<close>, the default handling of
  the base class, which is outside this file.
\<close>

datatype handler_result = Returned LRESULT | DefaultHandling

text \<open>
  The constructor's initialisers, for the fields that are modelled; \<open>iw\<close> supplies the
  fields it leaves alone.
\<close>

definition IslandWindow_ctor :: "IslandWindow \<Rightarrow> IslandWindow" where
  "IslandWindow_ctor iw =
     iw\<lparr>interopWindowHandle := nullptr, rootGrid := None, pfnCreateCallback := None\<rparr>"

definition Close :: "IslandWindow \<Rightarrow> Win32 \<Rightarrow> IslandWindow \<times> Win32" where
  "Close iw os = (iw, PostQuitMessage 0 os)"

definition SetCreateCallback ::
  "(HWND \<Rightarrow> RECT \<Rightarrow> LaunchMode \<Rightarrow> LaunchMode) option \<Rightarrow> IslandWindow \<Rightarrow> IslandWindow" where
  "SetCreateCallback pfn iw = iw\<lparr>pfnCreateCallback := pfn\<rparr>"

definition HandleCreateWindow ::
  "WPARAM \<Rightarrow> LPARAM \<Rightarrow> IslandWindow \<Rightarrow> Win32 \<Rightarrow> fault + (IslandWindow \<times> Win32)" where
  "HandleCreateWindow wParam lParam iw os =
     (case memory os lParam of
        None \<Rightarrow> Inl AccessViolation
      | Some pcs \<Rightarrow>
          let rc = \<lparr>left = cs_x pcs, top' = cs_y pcs,
                    right = cs_x pcs + cs_cx pcs, bottom = cs_y pcs + cs_cy pcs\<rparr>;
              (launchMode, os1) =
                (case pfnCreateCallback iw of
                   None \<Rightarrow> (DefaultMode, os)
                 | Some pfn \<Rightarrow>
                     (pfn (window iw) rc DefaultMode,
                      record_call (Call_CreateCallback (window iw) rc) os));
              nCmdShow = (if launchMode = MaximizedMode then SW_MAXIMIZE else SW_SHOW);
              os2 = ShowWindow (window iw) nCmdShow os1;
              os3 = UpdateWindow (window iw) os2
          in Inr (iw, os3))"

definition OnSize :: "UINT \<Rightarrow> UINT \<Rightarrow> IslandWindow \<Rightarrow> Win32 \<Rightarrow> IslandWindow \<times> Win32" where
  "OnSize width height iw os =
     (let os1 = SetWindowPos (interopWindowHandle iw) 0 0 0 width height SWP_SHOWWINDOW os
      in case rootGrid iw of
           None \<Rightarrow> (iw, os1)
         | Some g \<Rightarrow>
             let size = GetLogicalSize iw os1
             in (iw\<lparr>rootGrid := Some (g\<lparr>GridWidth := Width size, GridHeight := Height size\<rparr>)\<rparr>,
                 os1))"

text \<open>
  The body shared by the eight non-client button cases of the \<^verbatim>\<open>switch\<close>: raise
  \<^verbatim>\<open>DragRegionClicked\<close>, then \<^verbatim>\<open>break\<close> to the default handling.
\<close>

definition case_NC_BUTTON ::
  "IslandWindow \<Rightarrow> Win32 \<Rightarrow> fault + (handler_result \<times> IslandWindow \<times> Win32)" where
  "case_NC_BUTTON iw os =
     Inr (DefaultHandling, iw, raise_event DragRegionClicked (DragRegionClickedHandlers iw) os)"

text \<open>
  The \<^verbatim>\<open>switch\<close> of the message handler. The \<^verbatim>\<open>WM_SETFOCUS\<close> case returns inside its
  \<^verbatim>\<open>if\<close>; when the interop handle is null, control leaves the \<^verbatim>\<open>if\<close> and, there being
  no \<^verbatim>\<open>break\<close>, runs on into the non-client button cases below it.
\<close>

definition MessageHandler ::
  "UINT \<Rightarrow> WPARAM \<Rightarrow> LPARAM \<Rightarrow> IslandWindow \<Rightarrow> Win32
     \<Rightarrow> fault + (handler_result \<times> IslandWindow \<times> Win32)" where
  "MessageHandler message wparam lparam iw os =
     (if message = WM_CREATE then
        (case HandleCreateWindow wparam lparam iw os of
           Inl f \<Rightarrow> Inl f
         | Inr (iw1, os1) \<Rightarrow> Inr (Returned 0, iw1, os1))
      else if message = WM_SETFOCUS then
        (if interopWindowHandle iw \<noteq> nullptr
           then Inr (Returned 0, iw, SetFocus (interopWindowHandle iw) os)
         else case_NC_BUTTON iw os)
      else if message = WM_NCLBUTTONDOWN \<or> message = WM_NCLBUTTONUP
            \<or> message = WM_NCMBUTTONDOWN \<or> message = WM_NCMBUTTONUP
            \<or> message = WM_NCRBUTTONDOWN \<or> message = WM_NCRBUTTONUP
            \<or> message = WM_NCXBUTTONDOWN \<or> message = WM_NCXBUTTONUP then
        case_NC_BUTTON iw os
      else if message = WM_MENUCHAR then
        Inr (Returned (MAKELRESULT 0 MNC_CLOSE), iw, os)
      else if message = WM_CLOSE then
        Inr (Returned 0, iw,
             raise_event WindowCloseButtonClicked (windowCloseButtonClickedHandler iw) os)
      else Inr (DefaultHandling, iw, os))"

text \<open>
  \<open>Create\<close> is the outcome of \<^verbatim>\<open>WindowUiaProvider::Create(this)\<close>, a factory outside
  this file: the exception it throws or the pointer it returns. The \<^verbatim>\<open>catch (...)\<close>
  handles every exception, so the method itself always returns.
\<close>

definition GetUiaProvider ::
  "exception + pointer \<Rightarrow> IslandWindow \<Rightarrow> Win32
     \<Rightarrow> exception + (pointer \<times> IslandWindow \<times> Win32)" where
  "GetUiaProvider Create iw os =
     (if nullptr = pUiaProvider iw then
        (let os1 = record_call Call_WindowUiaProvider_Create os
         in case Create of
              Inr p \<Rightarrow>
                (let iw1 = iw\<lparr>pUiaProvider := p\<rparr>
                 in Inr (pUiaProvider iw1, iw1, os1))
            | Inl e \<Rightarrow>
                (let os2 = LOG_HR (ResultFromCaughtException e) os1;
                     iw1 = iw\<lparr>pUiaProvider := nullptr\<rparr>
                 in Inr (pUiaProvider iw1, iw1, os2)))
      else Inr (pUiaProvider iw, iw, os))"

definition OnResize :: "UINT \<Rightarrow> UINT \<Rightarrow> IslandWindow \<Rightarrow> Win32 \<Rightarrow> IslandWindow \<times> Win32" where
  "OnResize width height iw os =
     (if interopWindowHandle iw \<noteq> nullptr then OnSize width height iw os else (iw, os))"

subsection \<open>Fullscreen\<close>

text \<open>
  \<^verbatim>\<open>_ShouldUpdateStylesOnFullscreen()\<close> is declared outside this file. It takes no
  argument and is called after \<^verbatim>\<open>_fullscreen\<close> has been overwritten; the model takes it
  as a parameter, a predicate on the state at the point of the call.
\<close>

type_synonym style_guard = "IslandWindow \<Rightarrow> Win32 \<Rightarrow> bool"

definition BackupWindowSizes :: "bool \<Rightarrow> IslandWindow \<Rightarrow> Win32 \<Rightarrow> IslandWindow" where
  "BackupWindowSizes fCurrentIsInFullscreen iw os =
     (if fullscreen iw then
        (let iw1 = (if \<not> fCurrentIsInFullscreen
                     then iw\<lparr>rcNonFullscreenWindowSize := GetWindowRect iw os\<rparr>
                     else iw)
         in case GetMonitorInfo (GetWindowHandle iw1) os of
              Some rc \<Rightarrow> iw1\<lparr>rcFullscreenWindowSize := rc\<rparr>
            | None \<Rightarrow> iw1)
      else iw)"

definition ApplyWindowSize :: "IslandWindow \<Rightarrow> Win32 \<Rightarrow> Win32" where
  "ApplyWindowSize iw os =
     (let rcNewSize = (if fullscreen iw then rcFullscreenWindowSize iw
                       else rcNonFullscreenWindowSize iw)
      in SetWindowPos (GetWindowHandle iw) HWND_TOP
           (left rcNewSize) (top' rcNewSize) (RECT_WIDTH rcNewSize) (RECT_HEIGHT rcNewSize)
           SWP_FRAMECHANGED os)"

text \<open>The block of \<^verbatim>\<open>SetIsFullscreen\<close> that the guard protects.\<close>

definition update_styles :: "IslandWindow \<Rightarrow> Win32 \<Rightarrow> Win32" where
  "update_styles iw os =
     (let hWnd = GetWindowHandle iw;
          dwWindowStyle = GetWindowLongW hWnd GWL_STYLE os;
          dwWindowStyle1 =
            (if fullscreen iw
               then WI_SetFlag (WI_ClearAllFlags dwWindowStyle WS_OVERLAPPEDWINDOW) WS_POPUP
               else WI_SetAllFlags (WI_ClearFlag dwWindowStyle WS_POPUP) WS_OVERLAPPEDWINDOW);
          os1 = SetWindowLongW hWnd GWL_STYLE dwWindowStyle1 os;
          dwExWindowStyle = GetWindowLongW hWnd GWL_EXSTYLE os1;
          dwExWindowStyle1 =
            (if fullscreen iw
               then WI_ClearFlag dwExWindowStyle WS_EX_WINDOWEDGE
               else WI_SetFlag dwExWindowStyle WS_EX_WINDOWEDGE)
      in SetWindowLongW hWnd GWL_EXSTYLE dwExWindowStyle1 os1)"

definition SetIsFullscreen ::
  "style_guard \<Rightarrow> bool \<Rightarrow> IslandWindow \<Rightarrow> Win32 \<Rightarrow> IslandWindow \<times> Win32" where
  "SetIsFullscreen ShouldUpdateStylesOnFullscreen fFullscreenEnabled iw os =
     (let fOldIsInFullscreen = fullscreen iw;
          iw1 = iw\<lparr>fullscreen := fFullscreenEnabled\<rparr>;
          os1 = (if ShouldUpdateStylesOnFullscreen iw1 os then update_styles iw1 os else os);
          iw2 = BackupWindowSizes fOldIsInFullscreen iw1 os1
      in (iw2, ApplyWindowSize iw2 os1))"

definition ToggleFullscreen ::
  "style_guard \<Rightarrow> IslandWindow \<Rightarrow> Win32 \<Rightarrow> IslandWindow \<times> Win32" where
  "ToggleFullscreen ShouldUpdateStylesOnFullscreen iw os =
     SetIsFullscreen ShouldUpdateStylesOnFullscreen (\<not> fullscreen iw) iw os"

text \<open>
  Modelled from the spec: the body of \<^verbatim>\<open>_ShouldUpdateStylesOnFullscreen()\<close> is outside this
  file. The spec calls it the guard "should styles actually change", which gates whether
  style bits are touched at all and allows callers to re-enter the same state without
  visual side effects. So the guard answers yes exactly when the block it protects would
  change the style word or the extended style word of the window.
\<close>

definition ShouldUpdateStylesOnFullscreen :: style_guard where
  "ShouldUpdateStylesOnFullscreen iw os =
     (let hWnd = GetWindowHandle iw;
          os1 = update_styles iw os
      in \<not> (GetWindowLongW hWnd GWL_STYLE os1 = GetWindowLongW hWnd GWL_STYLE os
            \<and> GetWindowLongW hWnd GWL_EXSTYLE os1 = GetWindowLongW hWnd GWL_EXSTYLE os))"

section \<open>Sequences of fullscreen calls\<close>

text \<open>
  The two public fullscreen operations, and a run of them. Between two calls the window
  system may change on its own (the user moves the window to another monitor, say): each
  call of a run comes with the change \<open>env\<close> that happens just before it.
\<close>

datatype fs_op = SetIsFullscreenOp bool | ToggleFullscreenOp

fun apply_op ::
  "style_guard \<Rightarrow> fs_op \<Rightarrow> IslandWindow \<times> Win32 \<Rightarrow> IslandWindow \<times> Win32" where
  "apply_op g (SetIsFullscreenOp b) (iw, os) = SetIsFullscreen g b iw os"
| "apply_op g ToggleFullscreenOp (iw, os) = ToggleFullscreen g iw os"

fun run ::
  "style_guard \<Rightarrow> ((Win32 \<Rightarrow> Win32) \<times> fs_op) list \<Rightarrow> IslandWindow \<times> Win32
     \<Rightarrow> IslandWindow \<times> Win32" where
  "run g [] s = s"
| "run g ((env, c) # cs) (iw, os) = run g cs (apply_op g c (iw, env os))"

section \<open>Example states\<close>

text \<open>
  A desktop with one overlapped window, handle \<open>0x1000\<close>, at \<open>(100, 100)\<close> with size
  800 by 600 on a 1920 by 1080 monitor, and the creation structure of that window at
  address \<open>0x2000\<close>; a host window object for it as it is before \<^verbatim>\<open>Initialize\<close>, with one
  subscriber of \<^verbatim>\<open>DragRegionClicked\<close> and two of \<^verbatim>\<open>WindowCloseButtonClicked\<close>.
\<close>

definition desktop :: Win32 where
  "desktop =
     \<lparr>windows = (\<lambda>h. None)(0x1000 \<mapsto>
        \<lparr>rcWindow = \<lparr>left = 100, top' = 100, right = 900, bottom = 700\<rparr>,
         dwStyle = 0x14CF0000, dwExStyle = 0x00000100,
         rcMonitor = \<lparr>left = 0, top' = 0, right = 1920, bottom = 1080\<rparr>,
         monitorInfoOk = True\<rparr>),
      memory = (\<lambda>p. None)(0x2000 \<mapsto> \<lparr>cs_x = 100, cs_y = 100, cs_cx = 800, cs_cy = 600\<rparr>),
      logicalSize = \<lparr>Width = 800, Height = 600\<rparr>,
      calls = []\<rparr>"

definition fresh_window :: IslandWindow where
  "fresh_window =
     \<lparr>window = 0x1000, interopWindowHandle = nullptr, rootGrid = None,
      pfnCreateCallback = None, pUiaProvider = nullptr, fullscreen = False,
      rcNonFullscreenWindowSize = \<lparr>left = 0, top' = 0, right = 0, bottom = 0\<rparr>,
      rcFullscreenWindowSize = \<lparr>left = 0, top' = 0, right = 0, bottom = 0\<rparr>,
      DragRegionClickedHandlers = [1], windowCloseButtonClickedHandler = [2, 3]\<rparr>"

text \<open>A style guard that always answers yes, and a creation callback that asks for a
  maximized window.\<close>

definition always_update :: style_guard where
  "always_update iw os = True"

definition want_maximized :: "HWND \<Rightarrow> RECT \<Rightarrow> LaunchMode \<Rightarrow> LaunchMode" where
  "want_maximized hWnd rc launchMode = MaximizedMode"

text \<open>
  Two changes of the window system: the window \<open>h\<close> is moved to the rectangle \<open>rc\<close>
  on a monitor with rectangle \<open>mon\<close>; the monitor query for \<open>h\<close> starts to fail.
\<close>

definition move_window :: "HWND \<Rightarrow> RECT \<Rightarrow> RECT \<Rightarrow> Win32 \<Rightarrow> Win32" where
  "move_window h rc mon os =
     (case windows os h of
        None \<Rightarrow> os
      | Some w \<Rightarrow> os\<lparr>windows := (windows os)(h \<mapsto> w\<lparr>rcWindow := rc, rcMonitor := mon\<rparr>)\<rparr>)"

definition fail_monitor_query :: "HWND \<Rightarrow> Win32 \<Rightarrow> Win32" where
  "fail_monitor_query h os =
     (case windows os h of
        None \<Rightarrow> os
      | Some w \<Rightarrow> os\<lparr>windows := (windows os)(h \<mapsto> w\<lparr>monitorInfoOk := False\<rparr>)\<rparr>)"

definition second_monitor :: RECT where
  "second_monitor = \<lparr>left = 1920, top' = 0, right = 3840, bottom = 1080\<rparr>"

text \<open>The example window after one \<^verbatim>\<open>SetIsFullscreen(true)\<close>.\<close>

definition entered :: "IslandWindow \<times> Win32" where
  "entered = SetIsFullscreen always_update True fresh_window desktop"

text \<open>
  The example window after one \<^verbatim>\<open>SetIsFullscreen(true)\<close> and after a second one, under
  the style guard of the spec.
\<close>

definition guarded_once :: "IslandWindow \<times> Win32" where
  "guarded_once = SetIsFullscreen ShouldUpdateStylesOnFullscreen True fresh_window desktop"

definition guarded_twice :: "IslandWindow \<times> Win32" where
  "guarded_twice =
     SetIsFullscreen ShouldUpdateStylesOnFullscreen True (fst guarded_once) (snd guarded_once)"

text \<open>
  The example window put in fullscreen, moved to a second monitor while fullscreen, and
  put in fullscreen again; and the example window put in fullscreen while the monitor
  query fails.
\<close>

definition entered_then_moved :: "IslandWindow \<times> Win32" where
  "entered_then_moved =
     run always_update
       [(id, SetIsFullscreenOp True),
        (move_window 0x1000 second_monitor second_monitor, SetIsFullscreenOp True)]
       (fresh_window, desktop)"

definition entered_blind :: "IslandWindow \<times> Win32" where
  "entered_blind =
     run always_update [(fail_monitor_query 0x1000, SetIsFullscreenOp True)]
       (fresh_window, desktop)"

text \<open>The example window toggled into fullscreen, and toggled back.\<close>

definition toggled :: "IslandWindow \<times> Win32" where
  "toggled = ToggleFullscreen always_update fresh_window desktop"

definition toggled_back :: "IslandWindow \<times> Win32" where
  "toggled_back = ToggleFullscreen always_update (fst toggled) (snd toggled)"

section \<open>Facts about the window system\<close>

lemmas msg_defs =
  WM_CREATE_def WM_SETFOCUS_def WM_CLOSE_def WM_NCLBUTTONDOWN_def WM_NCLBUTTONUP_def
  WM_NCRBUTTONDOWN_def WM_NCRBUTTONUP_def WM_NCMBUTTONDOWN_def WM_NCMBUTTONUP_def
  WM_NCXBUTTONDOWN_def WM_NCXBUTTONUP_def WM_MENUCHAR_def

lemma GWL_distinct: "GWL_STYLE \<noteq> GWL_EXSTYLE" "GWL_EXSTYLE \<noteq> GWL_STYLE"
  by (simp_all add: GWL_STYLE_def GWL_EXSTYLE_def)

lemma frame_flags: "SWP_FRAMECHANGED AND SWP_NOMOVE = 0" "SWP_FRAMECHANGED AND SWP_NOSIZE = 0"
  by (simp_all add: SWP_FRAMECHANGED_def SWP_NOMOVE_def SWP_NOSIZE_def)

subsection \<open>The call log\<close>

lemma calls_SetWindowPos:
  "calls (SetWindowPos h a X Y cx cy fl os) = calls os @ [Call_SetWindowPos h a X Y cx cy fl]"
  by (simp add: SetWindowPos_def record_call_def Let_def split: option.split)

lemma calls_SetWindowLongW:
  "calls (SetWindowLongW h i v os) = calls os @ [Call_SetWindowLongW h i v]"
  by (simp add: SetWindowLongW_def record_call_def Let_def split: option.split)

subsection \<open>Which handles are windows\<close>

lemma dom_SetWindowPos:
  "(windows (SetWindowPos h' a X Y cx cy fl os) h = None) = (windows os h = None)"
  by (auto simp add: SetWindowPos_def record_call_def Let_def split: option.split)

lemma dom_SetWindowLongW:
  "(windows (SetWindowLongW h' i v os) h = None) = (windows os h = None)"
  by (auto simp add: SetWindowLongW_def record_call_def Let_def split: option.split)

lemma dom_update_styles:
  "(windows (update_styles iw os) h = None) = (windows os h = None)"
  by (simp add: update_styles_def Let_def dom_SetWindowLongW)

lemma dom_ApplyWindowSize:
  "(windows (ApplyWindowSize iw os) h = None) = (windows os h = None)"
  by (simp add: ApplyWindowSize_def Let_def dom_SetWindowPos)

subsection \<open>Style words\<close>

lemma GetWindowLongW_None: "windows os h = None \<Longrightarrow> GetWindowLongW h i os = 0"
  by (simp add: GetWindowLongW_def)

lemma GetWindowLongW_SetWindowPos:
  "GetWindowLongW h i (SetWindowPos h' a X Y cx cy fl os) = GetWindowLongW h i os"
  by (auto simp add: GetWindowLongW_def SetWindowPos_def record_call_def Let_def
      split: option.split)

lemma GetWindowLongW_ApplyWindowSize:
  "GetWindowLongW h i (ApplyWindowSize iw os) = GetWindowLongW h i os"
  by (simp add: ApplyWindowSize_def Let_def GetWindowLongW_SetWindowPos)

lemma GetWindowLongW_SetWindowLongW:
  "GetWindowLongW h i (SetWindowLongW h' i' v os) =
     (if h = h' \<and> i = i' \<and> windows os h \<noteq> None \<and> (i = GWL_STYLE \<or> i = GWL_EXSTYLE)
      then v else GetWindowLongW h i os)"
  using GWL_distinct
  by (auto simp add: GetWindowLongW_def SetWindowLongW_def record_call_def Let_def
      split: option.split)

lemma calls_update_styles:
  "calls (update_styles iw os) = calls os @
     [Call_SetWindowLongW (window iw) GWL_STYLE
        (if fullscreen iw
           then WI_SetFlag (WI_ClearAllFlags (GetWindowLongW (window iw) GWL_STYLE os)
                  WS_OVERLAPPEDWINDOW) WS_POPUP
           else WI_SetAllFlags (WI_ClearFlag (GetWindowLongW (window iw) GWL_STYLE os) WS_POPUP)
                  WS_OVERLAPPEDWINDOW),
      Call_SetWindowLongW (window iw) GWL_EXSTYLE
        (if fullscreen iw
           then WI_ClearFlag (GetWindowLongW (window iw) GWL_EXSTYLE os) WS_EX_WINDOWEDGE
           else WI_SetFlag (GetWindowLongW (window iw) GWL_EXSTYLE os) WS_EX_WINDOWEDGE)]"
  by (simp add: update_styles_def Let_def calls_SetWindowLongW GetWindowHandle_def
      GetWindowLongW_SetWindowLongW GWL_distinct)

lemma styles_after_update_styles:
  "GetWindowLongW (window iw) GWL_STYLE (update_styles iw os) =
     (if windows os (window iw) = None then 0
      else if fullscreen iw
        then WI_SetFlag (WI_ClearAllFlags (GetWindowLongW (window iw) GWL_STYLE os)
               WS_OVERLAPPEDWINDOW) WS_POPUP
        else WI_SetAllFlags (WI_ClearFlag (GetWindowLongW (window iw) GWL_STYLE os) WS_POPUP)
               WS_OVERLAPPEDWINDOW)"
  "GetWindowLongW (window iw) GWL_EXSTYLE (update_styles iw os) =
     (if windows os (window iw) = None then 0
      else if fullscreen iw
        then WI_ClearFlag (GetWindowLongW (window iw) GWL_EXSTYLE os) WS_EX_WINDOWEDGE
        else WI_SetFlag (GetWindowLongW (window iw) GWL_EXSTYLE os) WS_EX_WINDOWEDGE)"
  by (simp_all add: update_styles_def Let_def GetWindowHandle_def GWL_distinct
      GetWindowLongW_SetWindowLongW dom_SetWindowLongW GetWindowLongW_None)

text \<open>Putting a style word in its fullscreen form a second time changes nothing.\<close>

lemma fullscreen_style_idem:
  "WI_SetFlag (WI_ClearAllFlags (WI_SetFlag (WI_ClearAllFlags v WS_OVERLAPPEDWINDOW) WS_POPUP)
      WS_OVERLAPPEDWINDOW) WS_POPUP
   = WI_SetFlag (WI_ClearAllFlags v WS_OVERLAPPEDWINDOW) WS_POPUP"
  "WI_ClearFlag (WI_ClearFlag v WS_EX_WINDOWEDGE) WS_EX_WINDOWEDGE = WI_ClearFlag v WS_EX_WINDOWEDGE"
  "WI_SetFlag (WI_ClearAllFlags 0 WS_OVERLAPPEDWINDOW) WS_POPUP = WS_POPUP"
  by (simp_all add: WI_SetFlag_def WI_ClearAllFlags_def WI_ClearFlag_def
      WS_OVERLAPPEDWINDOW_def WS_POPUP_def bit.conj_disj_distrib2 and.assoc)

text \<open>The guard of the spec, spelt out on the style words.\<close>

lemma ShouldUpdateStylesOnFullscreen_iff:
  "ShouldUpdateStylesOnFullscreen iw os =
     (windows os (window iw) \<noteq> None \<and>
      \<not> ((if fullscreen iw
             then WI_SetFlag (WI_ClearAllFlags (GetWindowLongW (window iw) GWL_STYLE os)
                    WS_OVERLAPPEDWINDOW) WS_POPUP
             else WI_SetAllFlags (WI_ClearFlag (GetWindowLongW (window iw) GWL_STYLE os) WS_POPUP)
                    WS_OVERLAPPEDWINDOW)
            = GetWindowLongW (window iw) GWL_STYLE os
          \<and> (if fullscreen iw
               then WI_ClearFlag (GetWindowLongW (window iw) GWL_EXSTYLE os) WS_EX_WINDOWEDGE
               else WI_SetFlag (GetWindowLongW (window iw) GWL_EXSTYLE os) WS_EX_WINDOWEDGE)
            = GetWindowLongW (window iw) GWL_EXSTYLE os))"
  by (simp add: ShouldUpdateStylesOnFullscreen_def Let_def GetWindowHandle_def
      styles_after_update_styles GetWindowLongW_None)

subsection \<open>Rectangles and monitors\<close>

lemma GetMonitorInfo_SetWindowPos:
  "GetMonitorInfo h (SetWindowPos h' a X Y cx cy fl os) = GetMonitorInfo h os"
  by (auto simp add: GetMonitorInfo_def SetWindowPos_def record_call_def Let_def
      split: option.split)

lemma GetMonitorInfo_SetWindowLongW:
  "GetMonitorInfo h (SetWindowLongW h' i v os) = GetMonitorInfo h os"
  by (auto simp add: GetMonitorInfo_def SetWindowLongW_def record_call_def Let_def
      split: option.split)

lemma GetMonitorInfo_update_styles:
  "GetMonitorInfo h (update_styles iw' os) = GetMonitorInfo h os"
  by (simp add: update_styles_def Let_def GetMonitorInfo_SetWindowLongW)

lemma GetMonitorInfo_ApplyWindowSize:
  "GetMonitorInfo h (ApplyWindowSize iw os) = GetMonitorInfo h os"
  by (simp add: ApplyWindowSize_def Let_def GetMonitorInfo_SetWindowPos)

lemma GetWindowRect_None:
  "windows os (window iw) = None \<Longrightarrow>
   GetWindowRect iw os = \<lparr>left = 0, top' = 0, right = 0, bottom = 0\<rparr>"
  by (simp add: GetWindowRect_def)

lemma GetWindowRect_fullscreen_update:
  "GetWindowRect (iw\<lparr>fullscreen := b\<rparr>) os = GetWindowRect iw os"
  by (simp add: GetWindowRect_def)

lemma GetWindowRect_SetWindowLongW:
  "GetWindowRect iw (SetWindowLongW h' i v os) = GetWindowRect iw os"
  by (auto simp add: GetWindowRect_def SetWindowLongW_def record_call_def Let_def
      split: option.split)

lemma GetWindowRect_update_styles:
  "GetWindowRect iw (update_styles iw' os) = GetWindowRect iw os"
  by (simp add: update_styles_def Let_def GetWindowRect_SetWindowLongW)

lemma calls_ApplyWindowSize:
  "calls (ApplyWindowSize iw os) = calls os @
     [Call_SetWindowPos (window iw) HWND_TOP
        (left (if fullscreen iw then rcFullscreenWindowSize iw else rcNonFullscreenWindowSize iw))
        (top' (if fullscreen iw then rcFullscreenWindowSize iw else rcNonFullscreenWindowSize iw))
        (RECT_WIDTH
           (if fullscreen iw then rcFullscreenWindowSize iw else rcNonFullscreenWindowSize iw))
        (RECT_HEIGHT
           (if fullscreen iw then rcFullscreenWindowSize iw else rcNonFullscreenWindowSize iw))
        SWP_FRAMECHANGED]"
  by (simp add: ApplyWindowSize_def Let_def calls_SetWindowPos GetWindowHandle_def)

text \<open>After the placement call the window has the rectangle that was asked for.\<close>

lemma GetWindowRect_ApplyWindowSize:
  "GetWindowRect iw (ApplyWindowSize iw os) =
     (case windows os (window iw) of
        None \<Rightarrow> \<lparr>left = 0, top' = 0, right = 0, bottom = 0\<rparr>
      | Some w \<Rightarrow>
          (if fullscreen iw then rcFullscreenWindowSize iw else rcNonFullscreenWindowSize iw))"
  by (auto simp add: ApplyWindowSize_def GetWindowRect_def SetWindowPos_def record_call_def
      Let_def GetWindowHandle_def frame_flags RECT_WIDTH_def RECT_HEIGHT_def
      split: option.split)

subsection \<open>What a fullscreen call does to the object and to the window system\<close>

lemma fullscreen_update_same: "fullscreen iw = b \<Longrightarrow> iw\<lparr>fullscreen := b\<rparr> = iw"
  by (cases iw) simp

lemma BackupWindowSizes_frame:
  "window (BackupWindowSizes f iw os) = window iw"
  "fullscreen (BackupWindowSizes f iw os) = fullscreen iw"
  by (simp_all add: BackupWindowSizes_def Let_def split: option.split)

lemma BackupWindowSizes_nonfs:
  "rcNonFullscreenWindowSize (BackupWindowSizes f iw os) =
     (if fullscreen iw \<and> \<not> f then GetWindowRect iw os else rcNonFullscreenWindowSize iw)"
  by (simp add: BackupWindowSizes_def Let_def split: option.split)

lemma BackupWindowSizes_fs:
  "rcFullscreenWindowSize (BackupWindowSizes f iw os) =
     (if fullscreen iw then
        (case GetMonitorInfo (window iw) os of
           Some rc \<Rightarrow> rc
         | None \<Rightarrow> rcFullscreenWindowSize iw)
      else rcFullscreenWindowSize iw)"
  by (simp add: BackupWindowSizes_def Let_def GetWindowHandle_def split: option.split)

lemma SetIsFullscreen_fields:
  assumes "SetIsFullscreen g b iw os = (iw', os')"
  shows "window iw' = window iw" and "fullscreen iw' = b"
    and "rcNonFullscreenWindowSize iw' =
           (if b \<and> \<not> fullscreen iw then GetWindowRect iw os else rcNonFullscreenWindowSize iw)"
    and "rcFullscreenWindowSize iw' =
           (if b then (case GetMonitorInfo (window iw) os of
                         Some rc \<Rightarrow> rc
                       | None \<Rightarrow> rcFullscreenWindowSize iw)
            else rcFullscreenWindowSize iw)"
  using assms
  by (auto simp add: SetIsFullscreen_def Let_def BackupWindowSizes_frame BackupWindowSizes_nonfs
      BackupWindowSizes_fs GetWindowRect_update_styles GetMonitorInfo_update_styles
      GetWindowRect_fullscreen_update split: option.split)

lemma SetIsFullscreen_os:
  assumes "SetIsFullscreen g b iw os = (iw', os')"
  shows "os' = ApplyWindowSize iw'
           (if g (iw\<lparr>fullscreen := b\<rparr>) os then update_styles (iw\<lparr>fullscreen := b\<rparr>) os else os)"
  using assms by (auto simp add: SetIsFullscreen_def Let_def)

lemma run_snoc:
  "run g (pre @ [(env, c)]) s = apply_op g c (fst (run g pre s), env (snd (run g pre s)))"
proof (induction pre arbitrary: s)
  case Nil
  show ?case by (cases s) simp
next
  case (Cons a pre)
  show ?case by (cases a; cases s) (simp add: Cons.IH)
qed

lemma run_Cons:
  "run g ((env, c) # cs) s = run g cs (apply_op g c (fst s, env (snd s)))"
  by (cases s) simp

subsection \<open>The example states\<close>

lemma desktop_queries:
  "GetWindowRect fresh_window desktop = \<lparr>left = 100, top' = 100, right = 900, bottom = 700\<rparr>"
  "GetMonitorInfo 0x1000 desktop = Some \<lparr>left = 0, top' = 0, right = 1920, bottom = 1080\<rparr>"
  "GetWindowLongW 0x1000 GWL_STYLE desktop = 0x14CF0000"
  "GetWindowLongW 0x1000 GWL_EXSTYLE desktop = 0x100"
  "windows desktop 0x1000 \<noteq> None"
  "calls desktop = []"
  by (simp_all add: GetWindowRect_def GetMonitorInfo_def GetWindowLongW_def GWL_distinct
      fresh_window_def desktop_def)

lemma fresh_window_fields:
  "window fresh_window = 0x1000" "\<not> fullscreen fresh_window"
  "rcFullscreenWindowSize fresh_window = \<lparr>left = 0, top' = 0, right = 0, bottom = 0\<rparr>"
  "rcNonFullscreenWindowSize fresh_window = \<lparr>left = 0, top' = 0, right = 0, bottom = 0\<rparr>"
  "window (fresh_window\<lparr>fullscreen := b\<rparr>) = 0x1000"
  "fullscreen (fresh_window\<lparr>fullscreen := b\<rparr>) = b"
  by (simp_all add: fresh_window_def)

lemma style_numerals:
  "WI_SetFlag (WI_ClearAllFlags 0x14CF0000 WS_OVERLAPPEDWINDOW) WS_POPUP = 0x94000000"
  "WI_ClearFlag 0x100 WS_EX_WINDOWEDGE = 0"
  "WI_SetFlag (WI_ClearAllFlags 0x94000000 WS_OVERLAPPEDWINDOW) WS_POPUP = 0x94000000"
  "WI_ClearFlag 0 WS_EX_WINDOWEDGE = 0"
  by (simp_all add: WI_SetFlag_def WI_ClearAllFlags_def WI_ClearFlag_def
      WS_OVERLAPPEDWINDOW_def WS_POPUP_def WS_EX_WINDOWEDGE_def)

lemma GetMonitorInfo_move_window:
  "GetMonitorInfo h os = Some m \<Longrightarrow> GetMonitorInfo h (move_window h rc mon os) = Some mon"
  by (auto simp add: GetMonitorInfo_def move_window_def split: option.splits if_splits)

lemma GetMonitorInfo_fail_monitor_query:
  "GetMonitorInfo h (fail_monitor_query h os) = None"
  by (auto simp add: GetMonitorInfo_def fail_monitor_query_def split: option.splits)

lemma entered_eq:
  "SetIsFullscreen always_update True fresh_window desktop = (fst entered, snd entered)"
  by (simp add: entered_def)

lemma entered_fields:
  "window (fst entered) = 0x1000" "fullscreen (fst entered)"
  "rcNonFullscreenWindowSize (fst entered) = \<lparr>left = 100, top' = 100, right = 900, bottom = 700\<rparr>"
  "rcFullscreenWindowSize (fst entered) = \<lparr>left = 0, top' = 0, right = 1920, bottom = 1080\<rparr>"
  using SetIsFullscreen_fields [OF entered_eq]
  by (simp_all add: desktop_queries fresh_window_fields)

lemma entered_os:
  "snd entered =
     ApplyWindowSize (fst entered) (update_styles (fresh_window\<lparr>fullscreen := True\<rparr>) desktop)"
  using SetIsFullscreen_os [OF entered_eq] by (simp add: always_update_def)

lemma entered_queries:
  "GetWindowLongW 0x1000 GWL_STYLE (snd entered) = 0x94000000"
  "GetWindowLongW 0x1000 GWL_EXSTYLE (snd entered) = 0"
  "GetMonitorInfo 0x1000 (snd entered) = Some \<lparr>left = 0, top' = 0, right = 1920, bottom = 1080\<rparr>"
  using styles_after_update_styles [of "fresh_window\<lparr>fullscreen := True\<rparr>" desktop]
  by (simp_all add: entered_os GetWindowLongW_ApplyWindowSize GetMonitorInfo_ApplyWindowSize
      GetMonitorInfo_update_styles desktop_queries fresh_window_fields style_numerals)

lemma entered_then_moved_eq:
  "SetIsFullscreen always_update True (fst entered)
      (move_window 0x1000 second_monitor second_monitor (snd entered))
     = (fst entered_then_moved, snd entered_then_moved)"
  by (simp add: entered_then_moved_def entered_def run_Cons)

lemma entered_then_moved_fields:
  "fullscreen (fst entered_then_moved)"
  "rcFullscreenWindowSize (fst entered_then_moved) = second_monitor"
  "rcNonFullscreenWindowSize (fst entered_then_moved) = rcNonFullscreenWindowSize (fst entered)"
  using SetIsFullscreen_fields [OF entered_then_moved_eq]
  by (simp_all add: entered_fields GetMonitorInfo_move_window [OF entered_queries(3)])

lemma entered_blind_eq:
  "SetIsFullscreen always_update True fresh_window (fail_monitor_query 0x1000 desktop)
     = (fst entered_blind, snd entered_blind)"
  by (simp add: entered_blind_def run_Cons)

lemma entered_blind_fields:
  "fullscreen (fst entered_blind)"
  "rcFullscreenWindowSize (fst entered_blind) = \<lparr>left = 0, top' = 0, right = 0, bottom = 0\<rparr>"
  using SetIsFullscreen_fields [OF entered_blind_eq]
  by (simp_all add: fresh_window_fields GetMonitorInfo_fail_monitor_query)

lemma guard_on_desktop:
  "ShouldUpdateStylesOnFullscreen (fresh_window\<lparr>fullscreen := True\<rparr>) desktop"
  by (simp add: ShouldUpdateStylesOnFullscreen_iff desktop_queries fresh_window_fields
      style_numerals)

lemma guarded_once_eq:
  "SetIsFullscreen ShouldUpdateStylesOnFullscreen True fresh_window desktop
     = (fst guarded_once, snd guarded_once)"
  by (simp add: guarded_once_def)

lemma guarded_once_fields:
  "window (fst guarded_once) = 0x1000" "fullscreen (fst guarded_once)"
  "rcFullscreenWindowSize (fst guarded_once) = \<lparr>left = 0, top' = 0, right = 1920, bottom = 1080\<rparr>"
  using SetIsFullscreen_fields [OF guarded_once_eq]
  by (simp_all add: desktop_queries fresh_window_fields)

lemma guarded_once_os:
  "snd guarded_once =
     ApplyWindowSize (fst guarded_once) (update_styles (fresh_window\<lparr>fullscreen := True\<rparr>) desktop)"
  using SetIsFullscreen_os [OF guarded_once_eq] by (simp add: guard_on_desktop)

lemma guarded_once_queries:
  "GetWindowLongW 0x1000 GWL_STYLE (snd guarded_once) = 0x94000000"
  "GetWindowLongW 0x1000 GWL_EXSTYLE (snd guarded_once) = 0"
  "GetMonitorInfo 0x1000 (snd guarded_once)
     = Some \<lparr>left = 0, top' = 0, right = 1920, bottom = 1080\<rparr>"
  using styles_after_update_styles [of "fresh_window\<lparr>fullscreen := True\<rparr>" desktop]
  by (simp_all add: guarded_once_os GetWindowLongW_ApplyWindowSize GetMonitorInfo_ApplyWindowSize
      GetMonitorInfo_update_styles desktop_queries fresh_window_fields style_numerals)

lemma guarded_once_calls:
  "calls (snd guarded_once) =
     [Call_SetWindowLongW 0x1000 GWL_STYLE 0x94000000,
      Call_SetWindowLongW 0x1000 GWL_EXSTYLE 0,
      Call_SetWindowPos 0x1000 HWND_TOP 0 0 1920 1080 SWP_FRAMECHANGED]"
  by (simp add: guarded_once_os calls_ApplyWindowSize calls_update_styles guarded_once_fields
      desktop_queries fresh_window_fields style_numerals RECT_WIDTH_def RECT_HEIGHT_def)

lemma guarded_twice_eq:
  "SetIsFullscreen ShouldUpdateStylesOnFullscreen True (fst guarded_once) (snd guarded_once)
     = (fst guarded_twice, snd guarded_twice)"
  by (simp add: guarded_twice_def)

lemma guarded_twice_fields:
  "fullscreen (fst guarded_twice)"
  "rcFullscreenWindowSize (fst guarded_twice)
     = \<lparr>left = 0, top' = 0, right = 1920, bottom = 1080\<rparr>"
  using SetIsFullscreen_fields [OF guarded_twice_eq]
  by (simp_all add: guarded_once_fields guarded_once_queries)

section \<open>Window messages\<close>

text \<open>
  C8. A menu-character message (\<^verbatim>\<open>WM_MENUCHAR\<close>) is answered by the handler itself, with
  the result \<^verbatim>\<open>MAKELRESULT(0, MNC_CLOSE)\<close>: \<^verbatim>\<open>MNC_CLOSE\<close> in the high word and 0 in the
  low word. The default handling is not reached, and neither the window object nor the
  window system changes.
\<close>

theorem menuchar_returns_sentinel:
  "MessageHandler WM_MENUCHAR wparam lparam iw os = Inr (Returned (MAKELRESULT 0 MNC_CLOSE), iw, os)
   \<and> HIWORD (MAKELRESULT 0 MNC_CLOSE) = ucast MNC_CLOSE
   \<and> LOWORD (MAKELRESULT 0 MNC_CLOSE) = 0
   \<and> MAKELRESULT 0 MNC_CLOSE = 0x10000"
  by (simp add: MessageHandler_def msg_defs MAKELRESULT_def MAKELONG_def MNC_CLOSE_def
      HIWORD_def LOWORD_def)

text \<open>
  C5. A close request (\<^verbatim>\<open>WM_CLOSE\<close>) notifies every subscriber of
  \<^verbatim>\<open>WindowCloseButtonClicked\<close>, in subscription order, and returns 0 itself, so the default
  handling (which would destroy the window) is not reached. The notifications are the only
  calls the handler makes: it posts no quit message, and the window object is unchanged.
\<close>

theorem close_notifies_and_is_handled:
  "MessageHandler WM_CLOSE wparam lparam iw os =
     Inr (Returned 0, iw,
          os\<lparr>calls := calls os @
             map (Call_Handler WindowCloseButtonClicked) (windowCloseButtonClickedHandler iw)\<rparr>)
   \<and> Call_PostQuitMessage n \<notin>
       set (map (Call_Handler WindowCloseButtonClicked) (windowCloseButtonClickedHandler iw))"
  by (auto simp add: MessageHandler_def msg_defs raise_event_def)

text \<open>
  The focus message when the interop surface exists: focus goes to the surface and the
  handler returns 0.
\<close>

lemma setfocus_with_interop:
  "interopWindowHandle iw \<noteq> nullptr \<Longrightarrow>
   MessageHandler WM_SETFOCUS wparam lparam iw os =
     Inr (Returned 0, iw, os\<lparr>calls := calls os @ [Call_SetFocus (interopWindowHandle iw)]\<rparr>)"
  by (simp add: MessageHandler_def msg_defs SetFocus_def record_call_def)

text \<open>
  The focus message when the interop handle is null: the handler reaches the default
  handling, but only after it has notified the subscribers of \<^verbatim>\<open>DragRegionClicked\<close>.
\<close>

lemma setfocus_without_interop:
  "interopWindowHandle iw = nullptr \<Longrightarrow>
   MessageHandler WM_SETFOCUS wparam lparam iw os =
     Inr (DefaultHandling, iw,
          os\<lparr>calls := calls os @
             map (Call_Handler DragRegionClicked) (DragRegionClickedHandlers iw)\<rparr>)"
  by (simp add: MessageHandler_def msg_defs case_NC_BUTTON_def raise_event_def)

text \<open>
  C1. The claim is that a focus message (\<^verbatim>\<open>WM_SETFOCUS\<close>) with no interop surface reaches
  the default handling with no other effect, no event being raised. On the example window,
  whose interop handle is null and which has the subscriber 1 of \<^verbatim>\<open>DragRegionClicked\<close>,
  the handler does reach the default handling, but it notifies that subscriber first: the
  \<^verbatim>\<open>WM_SETFOCUS\<close> case has no \<^verbatim>\<open>break\<close> after its \<^verbatim>\<open>if\<close> and runs on into the
  non-client button cases.
\<close>

theorem setfocus_without_interop_raises_drag_event:
  "MessageHandler WM_SETFOCUS 0 0 fresh_window desktop =
     Inr (DefaultHandling, fresh_window, desktop\<lparr>calls := [Call_Handler DragRegionClicked 1]\<rparr>)"
  by (simp add: MessageHandler_def msg_defs case_NC_BUTTON_def raise_event_def
      fresh_window_def desktop_def)

text \<open>
  C6. A creation message (\<^verbatim>\<open>WM_CREATE\<close>) whose \<^verbatim>\<open>LPARAM\<close> points to a creation
  structure, with a creation callback registered: the callback is invoked once, with the
  window handle and the proposed rectangle \<open>(x, y, x + cx, y + cy)\<close>; the window is then
  shown with \<^verbatim>\<open>SW_MAXIMIZE\<close> when the callback leaves the launch mode Maximized and with
  \<^verbatim>\<open>SW_SHOW\<close> when it leaves it Default, and updated; the handler returns 0.
\<close>

theorem create_with_callback:
  assumes "pfnCreateCallback iw = Some pfn" and "memory os lparam = Some pcs"
  shows "MessageHandler WM_CREATE wparam lparam iw os =
     Inr (Returned 0, iw,
          os\<lparr>calls := calls os @
            [Call_CreateCallback (window iw)
               \<lparr>left = cs_x pcs, top' = cs_y pcs,
                right = cs_x pcs + cs_cx pcs, bottom = cs_y pcs + cs_cy pcs\<rparr>,
             Call_ShowWindow (window iw)
               (case pfn (window iw)
                       \<lparr>left = cs_x pcs, top' = cs_y pcs,
                        right = cs_x pcs + cs_cx pcs, bottom = cs_y pcs + cs_cy pcs\<rparr>
                       DefaultMode of
                  DefaultMode \<Rightarrow> SW_SHOW
                | MaximizedMode \<Rightarrow> SW_MAXIMIZE),
             Call_UpdateWindow (window iw)]\<rparr>)"
  using assms
  by (simp add: MessageHandler_def msg_defs HandleCreateWindow_def Let_def ShowWindow_def
      UpdateWindow_def record_call_def split: LaunchMode.split)

theorem create_with_callback_witness:
  "pfnCreateCallback (SetCreateCallback (Some want_maximized) fresh_window) = Some want_maximized
   \<and> memory desktop 0x2000 = Some \<lparr>cs_x = 100, cs_y = 100, cs_cx = 800, cs_cy = 600\<rparr>
   \<and> MessageHandler WM_CREATE 0 0x2000 (SetCreateCallback (Some want_maximized) fresh_window)
        desktop =
      Inr (Returned 0, SetCreateCallback (Some want_maximized) fresh_window,
           desktop\<lparr>calls :=
             [Call_CreateCallback 0x1000 \<lparr>left = 100, top' = 100, right = 900, bottom = 700\<rparr>,
              Call_ShowWindow 0x1000 SW_MAXIMIZE,
              Call_UpdateWindow 0x1000]\<rparr>)"
proof -
  have c: "pfnCreateCallback (SetCreateCallback (Some want_maximized) fresh_window)
             = Some want_maximized"
    by (simp add: SetCreateCallback_def)
  have m: "memory desktop 0x2000 = Some \<lparr>cs_x = 100, cs_y = 100, cs_cx = 800, cs_cy = 600\<rparr>"
    by (simp add: desktop_def)
  from create_with_callback [OF c m, of 0] c m show ?thesis
    by (simp add: SetCreateCallback_def fresh_window_def desktop_def want_maximized_def)
qed

text \<open>
  C10. A creation message (\<^verbatim>\<open>WM_CREATE\<close>) whose \<^verbatim>\<open>LPARAM\<close> points to a creation
  structure, with no creation callback registered: the handler does not fail; no callback
  is invoked, the launch mode stays Default, the window is shown with \<^verbatim>\<open>SW_SHOW\<close> and
  updated, and the handler returns 0.
\<close>

theorem create_without_callback:
  assumes "pfnCreateCallback iw = None" and "memory os lparam = Some pcs"
  shows "MessageHandler WM_CREATE wparam lparam iw os =
     Inr (Returned 0, iw,
          os\<lparr>calls := calls os @
            [Call_ShowWindow (window iw) SW_SHOW, Call_UpdateWindow (window iw)]\<rparr>)"
  using assms
  by (simp add: MessageHandler_def msg_defs HandleCreateWindow_def Let_def ShowWindow_def
      UpdateWindow_def record_call_def)

theorem create_without_callback_witness:
  "pfnCreateCallback (IslandWindow_ctor fresh_window) = None
   \<and> memory desktop 0x2000 = Some \<lparr>cs_x = 100, cs_y = 100, cs_cx = 800, cs_cy = 600\<rparr>
   \<and> MessageHandler WM_CREATE 0 0x2000 (IslandWindow_ctor fresh_window) desktop =
      Inr (Returned 0, IslandWindow_ctor fresh_window,
           desktop\<lparr>calls := [Call_ShowWindow 0x1000 SW_SHOW, Call_UpdateWindow 0x1000]\<rparr>)"
proof -
  have c: "pfnCreateCallback (IslandWindow_ctor fresh_window) = None"
    by (simp add: IslandWindow_ctor_def)
  have m: "memory desktop 0x2000 = Some \<lparr>cs_x = 100, cs_y = 100, cs_cx = 800, cs_cy = 600\<rparr>"
    by (simp add: desktop_def)
  from create_without_callback [OF c m, of 0] c m show ?thesis
    by (simp add: IslandWindow_ctor_def fresh_window_def desktop_def)
qed

section \<open>Resizing before initialization\<close>

text \<open>
  C7. \<^verbatim>\<open>OnResize(width, height)\<close> while the interop handle is null, as it is from the
  constructor until \<^verbatim>\<open>Initialize\<close>, does nothing: it returns normally, every field of the
  window object is as before, and no call reaches the window system.
\<close>

theorem resize_before_initialize_is_noop:
  "interopWindowHandle iw = nullptr \<Longrightarrow> OnResize width height iw os = (iw, os)"
  by (simp add: OnResize_def)

theorem resize_before_initialize_is_noop_witness:
  "interopWindowHandle (IslandWindow_ctor fresh_window) = nullptr
   \<and> OnResize 800 600 (IslandWindow_ctor fresh_window) desktop
       = (IslandWindow_ctor fresh_window, desktop)"
  using resize_before_initialize_is_noop [of "IslandWindow_ctor fresh_window" 800 600 desktop]
  by (simp add: IslandWindow_ctor_def)

section \<open>The accessibility provider\<close>

text \<open>
  C9. The getter of the accessibility provider. When no provider is stored and the factory
  throws, the exception is caught and its \<^verbatim>\<open>HRESULT\<close> logged, the stored provider is null
  and null is returned; the getter itself returns normally. When a provider is stored
  already, it is returned as it is, the factory is not called and nothing changes.
\<close>

theorem uia_provider_getter:
  "(pUiaProvider iw = nullptr \<longrightarrow>
      GetUiaProvider (Inl e) iw os =
        Inr (nullptr, iw\<lparr>pUiaProvider := nullptr\<rparr>,
             os\<lparr>calls := calls os @
               [Call_WindowUiaProvider_Create, Call_LOG_HR (ResultFromCaughtException e)]\<rparr>))
   \<and> (pUiaProvider iw \<noteq> nullptr \<longrightarrow>
      GetUiaProvider Create iw os = Inr (pUiaProvider iw, iw, os))"
  by (auto simp add: GetUiaProvider_def Let_def LOG_HR_def record_call_def)

theorem uia_provider_getter_witness:
  "pUiaProvider fresh_window = nullptr
   \<and> GetUiaProvider (Inl (Exception 0x80004005)) fresh_window desktop =
        Inr (nullptr, fresh_window,
             desktop\<lparr>calls := [Call_WindowUiaProvider_Create, Call_LOG_HR 0x80004005]\<rparr>)
   \<and> pUiaProvider (fresh_window\<lparr>pUiaProvider := 0x3000\<rparr>) \<noteq> nullptr
   \<and> GetUiaProvider (Inl (Exception 0x80004005)) (fresh_window\<lparr>pUiaProvider := 0x3000\<rparr>)
        desktop =
        Inr (0x3000, fresh_window\<lparr>pUiaProvider := 0x3000\<rparr>, desktop)"
  using uia_provider_getter [of fresh_window "Exception 0x80004005" desktop "Inl (Exception 0)"]
    uia_provider_getter [of "fresh_window\<lparr>pUiaProvider := 0x3000\<rparr>" "Exception 0" desktop
      "Inl (Exception 0x80004005)"]
  by (simp add: fresh_window_def desktop_def nullptr_def ResultFromCaughtException_def)

section \<open>Fullscreen\<close>

text \<open>
  C3. From a windowed state whose window rectangle is \<open>R\<close>, entering fullscreen (by
  \<^verbatim>\<open>SetIsFullscreen(true)\<close> or by \<^verbatim>\<open>ToggleFullscreen\<close>) and leaving it at once (by
  \<^verbatim>\<open>SetIsFullscreen(false)\<close> or by \<^verbatim>\<open>ToggleFullscreen\<close>) ends with the placement call
  \<^verbatim>\<open>SetWindowPos\<close> at \<open>R\<close>'s corner with \<open>R\<close>'s width and height and
  \<^verbatim>\<open>SWP_FRAMECHANGED\<close>; the window rectangle is \<open>R\<close> again and the window is windowed.
  This holds whatever the style guard answers.
\<close>

theorem fullscreen_round_trip:
  assumes windowed: "\<not> fullscreen iw"
    and enter: "enter = SetIsFullscreen g True \<or> enter = ToggleFullscreen g"
    and leave: "leave = SetIsFullscreen g False \<or> leave = ToggleFullscreen g"
    and first: "enter iw os = (iw_fs, os_fs)"
    and second: "leave iw_fs os_fs = (iw_back, os_back)"
  shows "last (calls os_back) =
           Call_SetWindowPos (window iw) HWND_TOP
             (left (GetWindowRect iw os)) (top' (GetWindowRect iw os))
             (RECT_WIDTH (GetWindowRect iw os)) (RECT_HEIGHT (GetWindowRect iw os))
             SWP_FRAMECHANGED
         \<and> GetWindowRect iw_back os_back = GetWindowRect iw os
         \<and> rcNonFullscreenWindowSize iw_back = GetWindowRect iw os
         \<and> \<not> fullscreen iw_back"
proof -
  from enter first windowed have e: "SetIsFullscreen g True iw os = (iw_fs, os_fs)"
    by (auto simp add: ToggleFullscreen_def)
  have f1: "fullscreen iw_fs" and w1: "window iw_fs = window iw"
    and r1: "rcNonFullscreenWindowSize iw_fs = GetWindowRect iw os"
    using SetIsFullscreen_fields [OF e] windowed by simp_all
  from leave second f1 have l: "SetIsFullscreen g False iw_fs os_fs = (iw_back, os_back)"
    by (auto simp add: ToggleFullscreen_def)
  have f2: "\<not> fullscreen iw_back" and w2: "window iw_back = window iw"
    and r2: "rcNonFullscreenWindowSize iw_back = GetWindowRect iw os"
    using SetIsFullscreen_fields [OF l] w1 r1 by simp_all
  note o1 = SetIsFullscreen_os [OF e] and o2 = SetIsFullscreen_os [OF l]
  have placed: "last (calls os_back) =
           Call_SetWindowPos (window iw) HWND_TOP
             (left (GetWindowRect iw os)) (top' (GetWindowRect iw os))
             (RECT_WIDTH (GetWindowRect iw os)) (RECT_HEIGHT (GetWindowRect iw os))
             SWP_FRAMECHANGED"
    by (subst o2) (simp add: calls_ApplyWindowSize f2 w2 r2)
  have d1: "(windows os_fs (window iw) = None) = (windows os (window iw) = None)"
    by (subst o1) (simp add: dom_ApplyWindowSize dom_update_styles)
  define mid where "mid = (if g (iw_fs\<lparr>fullscreen := False\<rparr>) os_fs
      then update_styles (iw_fs\<lparr>fullscreen := False\<rparr>) os_fs else os_fs)"
  have d2: "(windows mid (window iw) = None) = (windows os (window iw) = None)"
    by (simp add: mid_def dom_update_styles d1)
  have o2': "os_back = ApplyWindowSize iw_back mid" using o2 by (simp add: mid_def)
  have restored: "GetWindowRect iw_back os_back = GetWindowRect iw os"
  proof (cases "windows os (window iw)")
    case None
    with d2 have "windows mid (window iw_back) = None" by (simp add: w2)
    then show ?thesis
      by (simp add: o2' GetWindowRect_ApplyWindowSize GetWindowRect_None [of os iw] None)
  next
    case (Some w)
    with d2 obtain w' where "windows mid (window iw_back) = Some w'" by (auto simp add: w2)
    then show ?thesis
      by (simp add: o2' GetWindowRect_ApplyWindowSize f2 r2)
  qed
  from placed restored r2 f2 show ?thesis by simp
qed

theorem fullscreen_round_trip_witness:
  "\<not> fullscreen fresh_window
   \<and> ToggleFullscreen always_update fresh_window desktop = toggled
   \<and> ToggleFullscreen always_update (fst toggled) (snd toggled) = toggled_back
   \<and> last (calls (snd toggled_back)) =
       Call_SetWindowPos 0x1000 HWND_TOP 100 100 800 600 SWP_FRAMECHANGED
   \<and> GetWindowRect (fst toggled_back) (snd toggled_back)
       = \<lparr>left = 100, top' = 100, right = 900, bottom = 700\<rparr>
   \<and> \<not> fullscreen (fst toggled_back)"
proof -
  have a: "ToggleFullscreen always_update fresh_window desktop = (fst toggled, snd toggled)"
    by (simp add: toggled_def)
  have b: "ToggleFullscreen always_update (fst toggled) (snd toggled)
             = (fst toggled_back, snd toggled_back)"
    by (simp add: toggled_back_def)
  have e: "ToggleFullscreen always_update = SetIsFullscreen always_update True
           \<or> ToggleFullscreen always_update = ToggleFullscreen always_update"
    by simp
  have l: "ToggleFullscreen always_update = SetIsFullscreen always_update False
           \<or> ToggleFullscreen always_update = ToggleFullscreen always_update"
    by simp
  from fullscreen_round_trip [OF fresh_window_fields(2) e l a b] a b show ?thesis
    by (simp add: desktop_queries fresh_window_fields RECT_WIDTH_def RECT_HEIGHT_def)
qed

text \<open>
  What a second consecutive \<^verbatim>\<open>SetIsFullscreen(true)\<close> does under any style guard. When
  the guard answered yes in the first call, the style words are in their fullscreen form
  and the protected block would write the values that are already there.
\<close>

lemma styles_settled_after_update:
  assumes first: "SetIsFullscreen g True iw_pre os_pre = (iw, os)"
    and g0: "g (iw_pre\<lparr>fullscreen := True\<rparr>) os_pre"
  shows "GetWindowLongW (window iw) GWL_STYLE (update_styles iw os)
           = GetWindowLongW (window iw) GWL_STYLE os
       \<and> GetWindowLongW (window iw) GWL_EXSTYLE (update_styles iw os)
           = GetWindowLongW (window iw) GWL_EXSTYLE os"
proof -
  have f: "fullscreen iw" and w: "window iw = window iw_pre"
    using SetIsFullscreen_fields [OF first] by simp_all
  have o: "os = ApplyWindowSize iw (update_styles (iw_pre\<lparr>fullscreen := True\<rparr>) os_pre)"
    using SetIsFullscreen_os [OF first] g0 by simp
  have d: "(windows os (window iw) = None) = (windows os_pre (window iw) = None)"
    by (subst o) (simp add: dom_ApplyWindowSize dom_update_styles)
  have s: "GetWindowLongW (window iw) GWL_STYLE os =
      (if windows os_pre (window iw) = None then 0
       else WI_SetFlag (WI_ClearAllFlags (GetWindowLongW (window iw) GWL_STYLE os_pre)
              WS_OVERLAPPEDWINDOW) WS_POPUP)"
    using styles_after_update_styles(1) [of "iw_pre\<lparr>fullscreen := True\<rparr>" os_pre]
    by (subst o) (simp add: GetWindowLongW_ApplyWindowSize w)
  have e: "GetWindowLongW (window iw) GWL_EXSTYLE os =
      (if windows os_pre (window iw) = None then 0
       else WI_ClearFlag (GetWindowLongW (window iw) GWL_EXSTYLE os_pre) WS_EX_WINDOWEDGE)"
    using styles_after_update_styles(2) [of "iw_pre\<lparr>fullscreen := True\<rparr>" os_pre]
    by (subst o) (simp add: GetWindowLongW_ApplyWindowSize w)
  have "GetWindowLongW (window iw) GWL_STYLE (update_styles iw os)
          = GetWindowLongW (window iw) GWL_STYLE os"
    by (simp add: styles_after_update_styles(1) f d s fullscreen_style_idem)
  moreover have "GetWindowLongW (window iw) GWL_EXSTYLE (update_styles iw os)
          = GetWindowLongW (window iw) GWL_EXSTYLE os"
    by (simp add: styles_after_update_styles(2) f d e fullscreen_style_idem)
  ultimately show ?thesis by simp
qed

lemma second_call_any_guard:
  assumes first: "SetIsFullscreen g True iw_pre os_pre = (iw, os)"
    and second: "SetIsFullscreen g True iw os = (iw', os')"
  shows "calls os' = calls os @
           (if g iw os then
              [Call_SetWindowLongW (window iw) GWL_STYLE
                 (WI_SetFlag (WI_ClearAllFlags (GetWindowLongW (window iw) GWL_STYLE os)
                    WS_OVERLAPPEDWINDOW) WS_POPUP),
               Call_SetWindowLongW (window iw) GWL_EXSTYLE
                 (WI_ClearFlag (GetWindowLongW (window iw) GWL_EXSTYLE os) WS_EX_WINDOWEDGE)]
            else []) @
           [Call_SetWindowPos (window iw) HWND_TOP
              (left (rcFullscreenWindowSize iw')) (top' (rcFullscreenWindowSize iw'))
              (RECT_WIDTH (rcFullscreenWindowSize iw')) (RECT_HEIGHT (rcFullscreenWindowSize iw'))
              SWP_FRAMECHANGED]
         \<and> (g (iw_pre\<lparr>fullscreen := True\<rparr>) os_pre \<or> \<not> g iw os \<longrightarrow>
              GetWindowLongW (window iw) GWL_STYLE os' = GetWindowLongW (window iw) GWL_STYLE os
              \<and> GetWindowLongW (window iw) GWL_EXSTYLE os'
                  = GetWindowLongW (window iw) GWL_EXSTYLE os)
         \<and> fullscreen iw'
         \<and> rcNonFullscreenWindowSize iw' = rcNonFullscreenWindowSize iw"
proof -
  have f: "fullscreen iw"
    using SetIsFullscreen_fields [OF first] by simp
  have same: "iw\<lparr>fullscreen := True\<rparr> = iw"
    using f by (simp add: fullscreen_update_same)
  have f': "fullscreen iw'" and w': "window iw' = window iw"
    and n': "rcNonFullscreenWindowSize iw' = rcNonFullscreenWindowSize iw"
    using SetIsFullscreen_fields [OF second] f by simp_all
  have o': "os' = ApplyWindowSize iw' (if g iw os then update_styles iw os else os)"
    using SetIsFullscreen_os [OF second] same by simp
  have c: "calls os' = calls os @
           (if g iw os then
              [Call_SetWindowLongW (window iw) GWL_STYLE
                 (WI_SetFlag (WI_ClearAllFlags (GetWindowLongW (window iw) GWL_STYLE os)
                    WS_OVERLAPPEDWINDOW) WS_POPUP),
               Call_SetWindowLongW (window iw) GWL_EXSTYLE
                 (WI_ClearFlag (GetWindowLongW (window iw) GWL_EXSTYLE os) WS_EX_WINDOWEDGE)]
            else []) @
           [Call_SetWindowPos (window iw) HWND_TOP
              (left (rcFullscreenWindowSize iw')) (top' (rcFullscreenWindowSize iw'))
              (RECT_WIDTH (rcFullscreenWindowSize iw')) (RECT_HEIGHT (rcFullscreenWindowSize iw'))
              SWP_FRAMECHANGED]"
    by (simp add: o' calls_ApplyWindowSize calls_update_styles f f' w')
  have blocked:
    "GetWindowLongW (window iw) GWL_STYLE os' = GetWindowLongW (window iw) GWL_STYLE os
     \<and> GetWindowLongW (window iw) GWL_EXSTYLE os' = GetWindowLongW (window iw) GWL_EXSTYLE os"
    if "\<not> g iw os"
    using that by (simp add: o' GetWindowLongW_ApplyWindowSize)
  have rewritten:
    "GetWindowLongW (window iw) GWL_STYLE os' = GetWindowLongW (window iw) GWL_STYLE os
     \<and> GetWindowLongW (window iw) GWL_EXSTYLE os' = GetWindowLongW (window iw) GWL_EXSTYLE os"
    if g0: "g (iw_pre\<lparr>fullscreen := True\<rparr>) os_pre" and g1: "g iw os"
    using styles_settled_after_update [OF first g0] g1
    by (simp add: o' GetWindowLongW_ApplyWindowSize)
  from c blocked rewritten f' n' show ?thesis by blast
qed

text \<open>
  C4. Under the style guard of the spec, in the state that one \<^verbatim>\<open>SetIsFullscreen(true)\<close>
  leaves, which is in fullscreen, a second consecutive \<^verbatim>\<open>SetIsFullscreen(true)\<close> finds the
  guard answering no: it makes no \<^verbatim>\<open>SetWindowLongW\<close> call and the style words of every
  window are what they were. It still re-applies the geometry: its one call is the
  placement call \<^verbatim>\<open>SetWindowPos\<close> to the cached fullscreen rectangle with
  \<^verbatim>\<open>SWP_FRAMECHANGED\<close>, and the window stays in fullscreen.
\<close>

theorem second_fullscreen_call_is_blocked:
  assumes first: "SetIsFullscreen ShouldUpdateStylesOnFullscreen True iw_pre os_pre = (iw, os)"
    and second: "SetIsFullscreen ShouldUpdateStylesOnFullscreen True iw os = (iw', os')"
  shows "fullscreen iw
       \<and> \<not> ShouldUpdateStylesOnFullscreen iw os
       \<and> calls os' = calls os @
           [Call_SetWindowPos (window iw) HWND_TOP
              (left (rcFullscreenWindowSize iw')) (top' (rcFullscreenWindowSize iw'))
              (RECT_WIDTH (rcFullscreenWindowSize iw')) (RECT_HEIGHT (rcFullscreenWindowSize iw'))
              SWP_FRAMECHANGED]
       \<and> GetWindowLongW h i os' = GetWindowLongW h i os
       \<and> fullscreen iw'"
proof -
  let ?g = ShouldUpdateStylesOnFullscreen
  let ?iw1 = "iw_pre\<lparr>fullscreen := True\<rparr>"
  have f: "fullscreen iw" and w: "window iw = window iw_pre"
    using SetIsFullscreen_fields [OF first] by simp_all
  have same: "iw\<lparr>fullscreen := True\<rparr> = iw"
    using f by (simp add: fullscreen_update_same)
  have no: "\<not> ?g iw os"
  proof (cases "?g ?iw1 os_pre")
    case True
    from styles_settled_after_update [OF first True] show ?thesis
      by (simp add: ShouldUpdateStylesOnFullscreen_def GetWindowHandle_def)
  next
    case False
    then have o: "os = ApplyWindowSize iw os_pre"
      using SetIsFullscreen_os [OF first] by simp
    have "?g iw os = ?g ?iw1 os_pre"
      by (simp add: ShouldUpdateStylesOnFullscreen_iff f w o dom_ApplyWindowSize
          GetWindowLongW_ApplyWindowSize)
    with False show ?thesis by simp
  qed
  have f': "fullscreen iw'"
    using SetIsFullscreen_fields [OF second] by simp
  have o': "os' = ApplyWindowSize iw' os"
    using SetIsFullscreen_os [OF second] same no by simp
  have "GetWindowLongW h i os' = GetWindowLongW h i os"
    by (simp add: o' GetWindowLongW_ApplyWindowSize)
  moreover have "calls os' = calls os @
           [Call_SetWindowPos (window iw) HWND_TOP
              (left (rcFullscreenWindowSize iw')) (top' (rcFullscreenWindowSize iw'))
              (RECT_WIDTH (rcFullscreenWindowSize iw')) (RECT_HEIGHT (rcFullscreenWindowSize iw'))
              SWP_FRAMECHANGED]"
    using second_call_any_guard [OF first second] no by simp
  ultimately show ?thesis using f no f' by simp
qed

theorem second_fullscreen_call_is_blocked_witness:
  "SetIsFullscreen ShouldUpdateStylesOnFullscreen True fresh_window desktop = guarded_once
   \<and> SetIsFullscreen ShouldUpdateStylesOnFullscreen True (fst guarded_once) (snd guarded_once)
       = guarded_twice
   \<and> calls (snd guarded_once) =
       [Call_SetWindowLongW 0x1000 GWL_STYLE 0x94000000,
        Call_SetWindowLongW 0x1000 GWL_EXSTYLE 0,
        Call_SetWindowPos 0x1000 HWND_TOP 0 0 1920 1080 SWP_FRAMECHANGED]
   \<and> fullscreen (fst guarded_once)
   \<and> calls (snd guarded_twice) = calls (snd guarded_once) @
       [Call_SetWindowPos 0x1000 HWND_TOP 0 0 1920 1080 SWP_FRAMECHANGED]
   \<and> GetWindowLongW 0x1000 GWL_STYLE (snd guarded_twice) = 0x94000000
   \<and> GetWindowLongW 0x1000 GWL_EXSTYLE (snd guarded_twice) = 0
   \<and> fullscreen (fst guarded_twice)"
  using second_fullscreen_call_is_blocked
      [OF guarded_once_eq guarded_twice_eq, where h = "0x1000" and i = GWL_STYLE]
    second_fullscreen_call_is_blocked
      [OF guarded_once_eq guarded_twice_eq, where h = "0x1000" and i = GWL_EXSTYLE]
    guarded_once_eq guarded_twice_eq
  by (simp add: guarded_once_fields guarded_once_queries guarded_once_calls guarded_twice_fields
      RECT_WIDTH_def RECT_HEIGHT_def)

text \<open>
  C2, as claimed: the cached fullscreen rectangle equals the monitor rectangle under the
  window at the moment fullscreen was entered. Two runs on the example window, which starts
  windowed on the monitor \<open>(0, 0, 1920, 1080)\<close>, end otherwise. In the first, the window
  enters fullscreen, is moved to a second monitor and \<^verbatim>\<open>SetIsFullscreen(true)\<close> is called
  again: the cache then holds the second monitor. In the second, the monitor query fails
  when fullscreen is entered: the cache keeps the value it had.
\<close>

theorem cached_fullscreen_rectangle_can_differ:
  "\<not> fullscreen fresh_window
   \<and> map_option rcMonitor (windows desktop 0x1000)
       = Some \<lparr>left = 0, top' = 0, right = 1920, bottom = 1080\<rparr>
   \<and> fullscreen (fst entered)
   \<and> fullscreen (fst entered_then_moved)
   \<and> rcFullscreenWindowSize (fst entered_then_moved)
       = \<lparr>left = 1920, top' = 0, right = 3840, bottom = 1080\<rparr>
   \<and> map_option rcMonitor (windows (fail_monitor_query 0x1000 desktop) 0x1000)
       = Some \<lparr>left = 0, top' = 0, right = 1920, bottom = 1080\<rparr>
   \<and> fullscreen (fst entered_blind)
   \<and> rcFullscreenWindowSize (fst entered_blind) = \<lparr>left = 0, top' = 0, right = 0, bottom = 0\<rparr>"
  by (simp add: fresh_window_fields entered_fields entered_then_moved_fields entered_blind_fields
      second_monitor_def desktop_def fail_monitor_query_def)

text \<open>
  C2, amended. Take any run of \<^verbatim>\<open>SetIsFullscreen\<close> and \<^verbatim>\<open>ToggleFullscreen\<close> calls, with
  any changes of the window system in between, and any further call after it. That call
  overwrites the cached non-fullscreen rectangle only if the window was not in fullscreen
  before it and is in fullscreen after it, and then with the window rectangle at the
  moment of the call. It overwrites the cached fullscreen rectangle only if the window is
  in fullscreen after it (whether or not it was before) and the monitor query succeeds,
  and then with the rectangle of the monitor under the window at the moment of the call;
  otherwise that cache keeps its value.
\<close>

theorem cached_rectangles:
  assumes before: "run g pre s0 = (iw, os)"
    and after: "run g (pre @ [(env, c)]) s0 = (iw', os')"
  shows "rcNonFullscreenWindowSize iw' =
           (if \<not> fullscreen iw \<and> fullscreen iw' then GetWindowRect iw (env os)
            else rcNonFullscreenWindowSize iw)
       \<and> rcFullscreenWindowSize iw' =
           (if fullscreen iw' then
              (case GetMonitorInfo (window iw) (env os) of
                 Some rc \<Rightarrow> rc
               | None \<Rightarrow> rcFullscreenWindowSize iw)
            else rcFullscreenWindowSize iw)
       \<and> fullscreen iw' =
           (case c of SetIsFullscreenOp b \<Rightarrow> b | ToggleFullscreenOp \<Rightarrow> \<not> fullscreen iw)"
proof -
  have step: "apply_op g c (iw, env os) = (iw', os')"
    using after by (simp add: run_snoc before)
  show ?thesis
  proof (cases c)
    case (SetIsFullscreenOp b)
    with step have "SetIsFullscreen g b iw (env os) = (iw', os')" by simp
    from SetIsFullscreen_fields [OF this] show ?thesis
      by (simp add: SetIsFullscreenOp)
  next
    case ToggleFullscreenOp
    with step have "SetIsFullscreen g (\<not> fullscreen iw) iw (env os) = (iw', os')"
      by (simp add: ToggleFullscreen_def)
    from SetIsFullscreen_fields [OF this] show ?thesis
      by (simp add: ToggleFullscreenOp)
  qed
qed

theorem cached_rectangles_witness:
  "run always_update [(id, SetIsFullscreenOp True)] (fresh_window, desktop) = entered
   \<and> run always_update
        ([(id, SetIsFullscreenOp True)]
         @ [(move_window 0x1000 second_monitor second_monitor, SetIsFullscreenOp True)])
        (fresh_window, desktop) = entered_then_moved
   \<and> rcNonFullscreenWindowSize (fst entered_then_moved)
       = \<lparr>left = 100, top' = 100, right = 900, bottom = 700\<rparr>
   \<and> rcFullscreenWindowSize (fst entered_then_moved)
       = \<lparr>left = 1920, top' = 0, right = 3840, bottom = 1080\<rparr>
   \<and> fullscreen (fst entered_then_moved)"
proof -
  have a: "run always_update [(id, SetIsFullscreenOp True)] (fresh_window, desktop)
             = (fst entered, snd entered)"
    by (simp add: entered_def run_Cons)
  have b: "run always_update
        ([(id, SetIsFullscreenOp True)]
         @ [(move_window 0x1000 second_monitor second_monitor, SetIsFullscreenOp True)])
        (fresh_window, desktop) = (fst entered_then_moved, snd entered_then_moved)"
    by (simp add: entered_then_moved_def)
  have m: "GetMonitorInfo 0x1000 (move_window 0x1000 second_monitor second_monitor (snd entered))
             = Some second_monitor"
    by (rule GetMonitorInfo_move_window [OF entered_queries(3)])
  have "rcNonFullscreenWindowSize (fst entered_then_moved)
          = \<lparr>left = 100, top' = 100, right = 900, bottom = 700\<rparr>
      \<and> rcFullscreenWindowSize (fst entered_then_moved) = second_monitor
      \<and> fullscreen (fst entered_then_moved)"
    using cached_rectangles [OF a b] by (simp add: entered_fields m)
  with a b show ?thesis
    by (simp add: second_monitor_def)
qed

end
